theory Spec2Isabelle
  imports Complex_Main
begin

section \<open>The send command of os2cw (cmd/send.go)\<close>

text \<open>
  The command samples operating-system metrics and forwards them to CloudWatch. This theory
  embeds \<^verbatim>\<open>cmd/send.go\<close>: the two tables filled by \<^verbatim>\<open>init\<close>, the functions
  \<^verbatim>\<open>generateID\<close> and \<^verbatim>\<open>configureSession\<close>, and the command body \<^verbatim>\<open>send\<close>.
\<close>

subsection \<open>Data\<close>

text \<open>A Go \<^verbatim>\<open>error\<close> value that is not nil.\<close>

datatype err = Err string

text \<open>
  Modelled from the spec: the type declarations \<^verbatim>\<open>metricUnit\<close> and \<^verbatim>\<open>metricSpec\<close> and the
  variables \<^verbatim>\<open>storageUnits\<close> and \<^verbatim>\<open>metricSpecs\<close> are declared in another file of the package.
  The fields are those of the composite literals in \<^verbatim>\<open>init\<close>; the multiplier is an integer
  number of bytes per unit.
\<close>

record metricUnit =
  Name :: string
  Multiplier :: int

text \<open>
  The handler field holds a Go function value. The functions themselves (\<^verbatim>\<open>memAvail\<close>,
  \<^verbatim>\<open>memFree\<close>, ...) are defined outside \<^verbatim>\<open>send.go\<close>, so a handler is a tag naming the
  function, and what running it does is a parameter of the model (field \<open>Run\<close> below).
\<close>

datatype handlerFn =
    MemAvail | MemFree | MemTotal | MemUsed | MemUtil
  | VolumeAvailable | VolumeFree | VolumeTotal | VolumeUsed | VolumeUtil
  | Uptime | Procs

record metricSpec =
  SpecName :: string
  handler :: handlerFn

text \<open>The part of \<^verbatim>\<open>session.Session\<close> that \<^verbatim>\<open>configureSession\<close> writes.\<close>

datatype credentials =
    DefaultCredentials
  | StaticCredentials string string string

record session =
  Region :: "string option"
  Credentials :: credentials

text \<open>The configuration keys that \<^verbatim>\<open>send.go\<close> reads through viper.\<close>

record config =
  metrics :: "string list"
  volumeUnit :: string
  memoryUnit :: string
  region :: string
  accessKey :: string
  secretKey :: string

subsection \<open>The tables built by init\<close>

text \<open>Lines 88 to 93.\<close>

definition storageUnits :: "string \<rightharpoonup> metricUnit" where
  "storageUnits =
     [''b'' \<mapsto> \<lparr>Name = ''Bytes'', Multiplier = 1\<rparr>,
      ''kb'' \<mapsto> \<lparr>Name = ''Kilobytes'', Multiplier = 1024\<rparr>,
      ''mb'' \<mapsto> \<lparr>Name = ''Megabytes'', Multiplier = 1024 * 1024\<rparr>,
      ''gb'' \<mapsto> \<lparr>Name = ''Gigabytes'', Multiplier = 1024 * 1024 * 1024\<rparr>,
      ''tb'' \<mapsto> \<lparr>Name = ''Terabytes'', Multiplier = 1024 * 1024 * 1024 * 1024\<rparr>]"

text \<open>Lines 60 to 84.\<close>

definition metricSpecs :: "string \<rightharpoonup> metricSpec" where
  "metricSpecs =
     [''mem-avail'' \<mapsto> \<lparr>SpecName = ''MemoryFreePercentage'', handler = MemAvail\<rparr>,
      ''mem-free'' \<mapsto> \<lparr>SpecName = ''MemoryFree'', handler = MemFree\<rparr>,
      ''mem-total'' \<mapsto> \<lparr>SpecName = ''MemoryTotal'', handler = MemTotal\<rparr>,
      ''mem-used'' \<mapsto> \<lparr>SpecName = ''MemoryUsed'', handler = MemUsed\<rparr>,
      ''mem-util'' \<mapsto> \<lparr>SpecName = ''MemoryUsedPercentage'', handler = MemUtil\<rparr>,
      ''vol-avail'' \<mapsto> \<lparr>SpecName = ''VolumeFreePercentage'', handler = VolumeAvailable\<rparr>,
      ''vol-free'' \<mapsto> \<lparr>SpecName = ''VolumeFree'', handler = VolumeFree\<rparr>,
      ''vol-total'' \<mapsto> \<lparr>SpecName = ''VolumeTotal'', handler = VolumeTotal\<rparr>,
      ''vol-used'' \<mapsto> \<lparr>SpecName = ''VolumeUsed'', handler = VolumeUsed\<rparr>,
      ''vol-util'' \<mapsto> \<lparr>SpecName = ''VolumeUsedPercentage'', handler = VolumeUtil\<rparr>,
      ''uptime'' \<mapsto> \<lparr>SpecName = ''Uptime'', handler = Uptime\<rparr>,
      ''procs'' \<mapsto> \<lparr>SpecName = ''Processes'', handler = Procs\<rparr>]"

subsection \<open>What a run does: events\<close>

text \<open>
  The blocks of \<^verbatim>\<open>send\<close>, under the names the specification gives them: the check of the
  system id (lines 126 to 135), the call of \<^verbatim>\<open>configureSession\<close> (line 137), the choice of
  the metric list (lines 139 to 151), the two unit lookups (lines 153 to 165), the copy into
  a map (lines 167 to 171), the loop over that map (lines 173 to 185), and the deferred
  \<^verbatim>\<open>os.Exit(code)\<close> (lines 122 to 124).
\<close>

datatype stage =
    ValidateIdentity | ConfigureSession | ResolveMetrics | ValidateUnits
  | Dedupe | ExecuteEach | ComputeExitCode

text \<open>The format strings of the source, each with its arguments.\<close>

datatype message =
    UnableToGenerateSystemID
  | NoMetricsSpecified
  | InvalidVolumeUnit string
  | InvalidMemoryUnit string
  | MetricRunError err
  | InvalidMetric string
  | ViperRegion string
  | SessionRegionUpdated string
  | AccessKeyFound bool
  | SessionCredentialsSet

text \<open>
  A run leaves a trace. \<open>At b\<close> records that control entered block \<open>b\<close>; \<open>Usage\<close> is
  \<^verbatim>\<open>sendCmd.Usage()\<close>; \<open>Errorf\<close> and \<open>Debugf\<close> are the logrus calls and \<open>Printf\<close> is
  \<^verbatim>\<open>fmt.Printf\<close>; \<open>RunHandler m s r\<close> is the call \<^verbatim>\<open>s.Run()\<close> for the metric id \<open>m\<close>, made
  while the session was \<open>s\<close>, returning \<open>r\<close>; \<open>Exit c\<close> is the deferred \<^verbatim>\<open>os.Exit(c)\<close>.
\<close>

datatype event =
    At stage
  | Usage
  | Errorf message
  | Debugf message
  | Printf message
  | RunHandler string session "err option"
  | Exit int

text \<open>
  The variables a run writes: the package variables \<^verbatim>\<open>systemID\<close> and \<^verbatim>\<open>sess\<close>, the local
  \<^verbatim>\<open>code\<close>, everything outside the process that a handler may change (\<open>world\<close>, left
  abstract), and the trace so far.
\<close>

record 'w state =
  systemID :: string
  sess :: session
  code :: int
  world :: 'w
  trace :: "event list"

text \<open>
  What a run is given. \<open>idFlag\<close> is the value of \<^verbatim>\<open>systemID\<close> on entry (the \<^verbatim>\<open>--id\<close> flag,
  empty when absent); \<open>instanceID\<close> and \<open>hostname\<close> are what the metadata service and
  \<^verbatim>\<open>os.Hostname\<close> return, an error on the left. \<open>Run\<close> is the method \<^verbatim>\<open>metricSpec.Run\<close>, which
  is not in \<^verbatim>\<open>send.go\<close> and is a parameter here: any function that reads the system id and the
  session, acts on the world and returns an error or nil. That a handler returns, and that
  it does not assign to \<^verbatim>\<open>systemID\<close> or \<^verbatim>\<open>sess\<close>, is assumed. \<open>mapRange\<close> is the order in
  which the Go runtime's \<^verbatim>\<open>range\<close> visits the keys of a map; the language leaves it
  unspecified, so it is a parameter too.
\<close>

record 'w env =
  viper :: config
  idFlag :: string
  sess0 :: session
  world0 :: 'w
  instanceID :: "err + string"
  hostname :: "err + string"
  Run :: "metricSpec \<Rightarrow> string \<Rightarrow> session \<Rightarrow> 'w \<Rightarrow> err option \<times> 'w"
  mapRange :: "(string \<rightharpoonup> unit) \<Rightarrow> string list"

text \<open>A \<^verbatim>\<open>range\<close> over a map visits every key once.\<close>

definition rangeOrder :: "(string \<rightharpoonup> unit) \<Rightarrow> string list \<Rightarrow> bool" where
  "rangeOrder m ks = (distinct ks \<and> set ks = dom m)"

definition emit :: "event \<Rightarrow> 'w state \<Rightarrow> 'w state" where
  "emit e st = st\<lparr>trace := trace st @ [e]\<rparr>"

subsection \<open>generateID and configureSession\<close>

text \<open>Lines 188 to 199.\<close>

definition generateID :: "'w env \<Rightarrow> string" where
  "generateID env =
     (case instanceID env of
        Inr instanceid \<Rightarrow> instanceid
      | Inl _ \<Rightarrow>
         (case hostname env of
            Inr host \<Rightarrow> host
          | Inl _ \<Rightarrow> []))"

text \<open>Lines 207 to 219.\<close>

definition configureSession :: "config \<Rightarrow> 'w state \<Rightarrow> 'w state" where
  "configureSession cfg st =
     (let st1 = emit (Debugf (ViperRegion (region cfg))) st;
          st2 = (if region cfg \<noteq> []
                 then emit (Debugf (SessionRegionUpdated (region cfg)))
                        (st1\<lparr>sess := (sess st1)\<lparr>Region := Some (region cfg)\<rparr>\<rparr>)
                 else st1);
          st3 = emit (Debugf (AccessKeyFound (accessKey cfg \<noteq> []))) st2
      in if accessKey cfg \<noteq> []
         then emit (Debugf SessionCredentialsSet)
                (st3\<lparr>sess := (sess st3)\<lparr>Credentials :=
                   StaticCredentials (accessKey cfg) (secretKey cfg) []\<rparr>\<rparr>)
         else st3)"

subsection \<open>send\<close>

text \<open>Lines 139 to 144: the configured list, overridden by the positional arguments.\<close>

definition requestedMetrics :: "config \<Rightarrow> string list \<Rightarrow> string list" where
  "requestedMetrics cfg args =
     (let configured = metrics cfg
      in if length args > 0 then args else configured)"

text \<open>Lines 168 to 171: the list copied into a map with empty values.\<close>

definition metricsDistinct :: "string list \<Rightarrow> (string \<rightharpoonup> unit)" where
  "metricsDistinct ms = foldl (\<lambda>m metric. m(metric \<mapsto> ())) Map.empty ms"

text \<open>Lines 174 to 184: the body of the loop, for one key.\<close>

definition runMetric :: "'w env \<Rightarrow> string \<Rightarrow> 'w state \<Rightarrow> 'w state" where
  "runMetric env metric st =
     (case metricSpecs metric of
        None \<Rightarrow> emit (Printf (InvalidMetric metric)) st
      | Some s \<Rightarrow>
         (case Run env s (systemID st) (sess st) (world st) of
            (None, w) \<Rightarrow> emit (RunHandler metric (sess st) None) (st\<lparr>world := w\<rparr>)
          | (Some e, w) \<Rightarrow>
              (emit (Errorf (MetricRunError e))
                 (emit (RunHandler metric (sess st) (Some e)) (st\<lparr>world := w\<rparr>)))
              \<lparr>code := 1\<rparr>))"

text \<open>A fatal exit of \<^verbatim>\<open>send\<close>: usage text, one error line, \<^verbatim>\<open>code = 1\<close>, return.\<close>

definition fatal :: "message \<Rightarrow> 'w state \<Rightarrow> 'w state" where
  "fatal msg st = (emit (Errorf msg) (emit Usage st))\<lparr>code := 1\<rparr>"

text \<open>Lines 126 to 185, from the first statement after the \<^verbatim>\<open>defer\<close> to the end of the loop.\<close>

definition sendBody :: "'w env \<Rightarrow> string list \<Rightarrow> 'w state \<Rightarrow> 'w state" where
  "sendBody env args st0 =
     (let st1 = emit (At ValidateIdentity) st0;
          st2 = (if systemID st1 = [] then st1\<lparr>systemID := generateID env\<rparr> else st1)
      in if systemID st2 = [] then fatal UnableToGenerateSystemID st2
         else
           let st3 = configureSession (viper env) (emit (At ConfigureSession) st2);
               st4 = emit (At ResolveMetrics) st3;
               requested = requestedMetrics (viper env) args
           in if length requested = 0 then fatal NoMetricsSpecified st4
              else
                let st5 = emit (At ValidateUnits) st4
                in if storageUnits (volumeUnit (viper env)) = None
                   then fatal (InvalidVolumeUnit (volumeUnit (viper env))) st5
                   else if storageUnits (memoryUnit (viper env)) = None
                   then fatal (InvalidMemoryUnit (memoryUnit (viper env))) st5
                   else
                     let st6 = emit (At Dedupe) st5;
                         distinct_map = metricsDistinct requested;
                         st7 = emit (At ExecuteEach) st6
                     in fold (runMetric env) (mapRange env distinct_map) st7)"

text \<open>
  Lines 120 to 186. \<^verbatim>\<open>code\<close> starts at 0, and the deferred function exits the process with
  it on every return. The exit code of the run is the field \<open>code\<close> of the result.
\<close>

definition send :: "'w env \<Rightarrow> string list \<Rightarrow> 'w state" where
  "send env args =
     (let st0 = \<lparr>systemID = idFlag env, sess = sess0 env, code = 0,
                 world = world0 env, trace = []\<rparr>;
          st = sendBody env args st0
      in emit (Exit (code st)) st)"

text \<open>
  The run's iteration order is a legal one when it visits each key of the map built from the
  requested metrics exactly once.
\<close>

definition legalRange :: "'w env \<Rightarrow> string list \<Rightarrow> bool" where
  "legalRange env args =
     (let m = metricsDistinct (requestedMetrics (viper env) args)
      in rangeOrder m (mapRange env m))"

subsection \<open>Reading a trace\<close>

text \<open>The metric ids whose handlers were run, in the order of the calls.\<close>

fun handlerRuns :: "event list \<Rightarrow> string list" where
  "handlerRuns [] = []"
| "handlerRuns (RunHandler m s r # es) = m # handlerRuns es"
| "handlerRuns (e # es) = handlerRuns es"

text \<open>The blocks entered, in order; the exit is the last block.\<close>

fun stages :: "event list \<Rightarrow> stage list" where
  "stages [] = []"
| "stages (At b # es) = b # stages es"
| "stages (Exit c # es) = ComputeExitCode # stages es"
| "stages (e # es) = stages es"

text \<open>The order of the blocks in the source.\<close>

definition stageOrder :: "stage list" where
  "stageOrder =
     [ValidateIdentity, ConfigureSession, ResolveMetrics, ValidateUnits, Dedupe, ExecuteEach]"

subsection \<open>Percentage handlers\<close>

text \<open>
  Modelled from the spec: the handlers \<^verbatim>\<open>memUtil\<close>, \<^verbatim>\<open>memAvail\<close>, \<^verbatim>\<open>volumeUtil\<close> and
  \<^verbatim>\<open>volumeAvailable\<close> are registered by \<^verbatim>\<open>init\<close> (lines 61 to 80) and defined in another
  file of the package. The specification says that a percentage handler computes
  used/total*100 or free/total*100 and reports a failure when the total is 0. The arguments
  are the quantities read from the operating system, in bytes; the volume handlers are given
  the reading of one volume.
\<close>

definition percentage :: "nat \<Rightarrow> nat \<Rightarrow> err + real" where
  "percentage part whole =
     (if whole = 0 then Inl (Err ''whole is zero'')
      else Inr (real part / real whole * 100))"

definition memUtil :: "nat \<Rightarrow> nat \<Rightarrow> err + real" where
  "memUtil used whole = percentage used whole"

definition memAvail :: "nat \<Rightarrow> nat \<Rightarrow> err + real" where
  "memAvail free whole = percentage free whole"

definition volumeUtil :: "nat \<Rightarrow> nat \<Rightarrow> err + real" where
  "volumeUtil used whole = percentage used whole"

definition volumeAvailable :: "nat \<Rightarrow> nat \<Rightarrow> err + real" where
  "volumeAvailable free whole = percentage free whole"

subsection \<open>Concrete runs\<close>

text \<open>
  The defaults that \<^verbatim>\<open>init\<close> sets (lines 53 to 58). The default region is what the metadata
  service reports, the empty string on a machine that has none.
\<close>

definition defaults :: config where
  "defaults =
     \<lparr>metrics = [], volumeUnit = ''mb'', memoryUnit = ''kb'',
      region = [], accessKey = [], secretKey = []\<rparr>"

text \<open>
  A machine to run \<open>send\<close> on: no metadata service, host name \<^verbatim>\<open>host-1\<close>, handlers that
  fail when listed in \<open>failing\<close>, a world that counts the handler calls, and a map
  iteration that visits the keys in the order \<open>order\<close>.
\<close>

definition testHost :: "config \<Rightarrow> string \<Rightarrow> string list \<Rightarrow> handlerFn list \<Rightarrow> nat env" where
  "testHost cfg flag order failing =
     \<lparr>viper = cfg, idFlag = flag,
      sess0 = \<lparr>Region = None, Credentials = DefaultCredentials\<rparr>,
      world0 = 0,
      instanceID = Inl (Err ''no metadata service''),
      hostname = Inr ''host-1'',
      Run = (\<lambda>s sid ss w.
               (if handler s \<in> set failing then Some (Err ''read failed'') else None, Suc w)),
      mapRange = (\<lambda>m. order)\<rparr>"

section \<open>Basic facts about the model\<close>

lemma emit_simps:
  "trace (emit e st) = trace st @ [e]"
  "code (emit e st) = code st"
  "sess (emit e st) = sess st"
  "systemID (emit e st) = systemID st"
  "world (emit e st) = world st"
  by (simp_all add: emit_def)

lemma fatal_simps:
  "trace (fatal msg st) = trace st @ [Usage, Errorf msg]"
  "code (fatal msg st) = 1"
  "sess (fatal msg st) = sess st"
  "systemID (fatal msg st) = systemID st"
  "world (fatal msg st) = world st"
  by (simp_all add: fatal_def emit_simps)

lemma handlerRuns_append: "handlerRuns (xs @ ys) = handlerRuns xs @ handlerRuns ys"
  by (induction xs rule: handlerRuns.induct) simp_all

lemma stages_append: "stages (xs @ ys) = stages xs @ stages ys"
  by (induction xs rule: stages.induct) simp_all

lemma configureSession_simps:
  "code (configureSession cfg st) = code st"
  "systemID (configureSession cfg st) = systemID st"
  "world (configureSession cfg st) = world st"
  "handlerRuns (trace (configureSession cfg st)) = handlerRuns (trace st)"
  "stages (trace (configureSession cfg st)) = stages (trace st)"
  by (simp_all add: configureSession_def Let_def emit_simps handlerRuns_append stages_append)

lemma runMetric_simps:
  "sess (runMetric env m st) = sess st"
  "systemID (runMetric env m st) = systemID st"
  "stages (trace (runMetric env m st)) = stages (trace st)"
  "handlerRuns (trace (runMetric env m st)) =
     handlerRuns (trace st) @ (if metricSpecs m = None then [] else [m])"
  by (simp_all add: runMetric_def emit_simps handlerRuns_append stages_append
      split: option.splits prod.splits)

lemma fold_runMetric_simps:
  "sess (fold (runMetric env) ks st) = sess st"
  "systemID (fold (runMetric env) ks st) = systemID st"
  "stages (trace (fold (runMetric env) ks st)) = stages (trace st)"
  "handlerRuns (trace (fold (runMetric env) ks st)) =
     handlerRuns (trace st) @ filter (\<lambda>m. metricSpecs m \<noteq> None) ks"
  by (induction ks arbitrary: st; simp add: runMetric_simps)+

lemmas send_unfold = send_def sendBody_def Let_def emit_simps fatal_simps
  configureSession_simps handlerRuns_append stages_append fold_runMetric_simps

text \<open>The definitions to unfold when a run is evaluated on a concrete machine.\<close>

lemmas run_defs = testHost_def defaults_def metricSpecs_def storageUnits_def
  requestedMetrics_def metricsDistinct_def send_def sendBody_def Let_def emit_def fatal_def
  configureSession_def runMetric_def

text \<open>The configured metric list is read by \<open>requestedMetrics\<close> only.\<close>

lemma viper_metrics_irrelevant:
  "generateID (env\<lparr>viper := c\<rparr>) = generateID env"
  "configureSession (cfg\<lparr>metrics := ms\<rparr>) = configureSession cfg"
  "runMetric (env\<lparr>viper := c\<rparr>) = runMetric env"
  by (simp_all add: generateID_def configureSession_def runMetric_def fun_eq_iff Let_def
      cong: sum.case_cong option.case_cong prod.case_cong)

subsection \<open>The map of distinct metrics\<close>

lemma dom_metricsDistinct_aux:
  "dom (foldl (\<lambda>m metric. m(metric \<mapsto> ())) m0 ms) = dom m0 \<union> set ms"
  by (induction ms arbitrary: m0) auto

lemma dom_metricsDistinct: "dom (metricsDistinct ms) = set ms"
  by (simp add: metricsDistinct_def dom_metricsDistinct_aux)

lemma metricsDistinct_cong:
  assumes "set ms = set ms'"
  shows "metricsDistinct ms = metricsDistinct ms'"
proof (rule ext)
  fix k
  have "(k \<in> dom (metricsDistinct ms)) = (k \<in> dom (metricsDistinct ms'))"
    using assms by (simp add: dom_metricsDistinct)
  then have "(metricsDistinct ms k = None) = (metricsDistinct ms' k = None)"
    by (simp only: domIff) blast
  then show "metricsDistinct ms k = metricsDistinct ms' k"
    by (cases "metricsDistinct ms k"; cases "metricsDistinct ms' k") simp_all
qed

lemma RunHandler_in_handlerRuns: "RunHandler m s r \<in> set tr \<Longrightarrow> m \<in> set (handlerRuns tr)"
  by (induction tr rule: handlerRuns.induct) auto

lemma sess_configureSession:
  "sess (configureSession cfg st) =
     \<lparr>Region = (if region cfg \<noteq> [] then Some (region cfg) else Region (sess st)),
      Credentials = (if accessKey cfg \<noteq> []
                     then StaticCredentials (accessKey cfg) (secretKey cfg) []
                     else Credentials (sess st))\<rparr>"
  by (simp add: configureSession_def Let_def emit_def)

text \<open>One pass of the loop body, and the whole loop.\<close>

lemma runMetric_trace:
  "\<exists>L. trace (runMetric env m st) = trace st @ L \<and> stages L = []
       \<and> (\<forall>m' s r. RunHandler m' s r \<in> set L \<longrightarrow>
             s = sess st \<and> (\<forall>e. r = Some e \<longrightarrow>
               Errorf (MetricRunError e) \<in> set L \<and> code (runMetric env m st) = 1))
       \<and> (code st = 1 \<longrightarrow> code (runMetric env m st) = 1)"
  by (auto simp: runMetric_def emit_def split: option.splits prod.splits)

lemma fold_runMetric_trace:
  "\<exists>L. trace (fold (runMetric env) ks st) = trace st @ L \<and> stages L = []
       \<and> (\<forall>m' s r. RunHandler m' s r \<in> set L \<longrightarrow>
             s = sess st \<and> (\<forall>e. r = Some e \<longrightarrow>
               Errorf (MetricRunError e) \<in> set L \<and> code (fold (runMetric env) ks st) = 1))
       \<and> (code st = 1 \<longrightarrow> code (fold (runMetric env) ks st) = 1)"
proof (induction ks arbitrary: st)
  case Nil
  show ?case by simp
next
  case (Cons k ks)
  obtain L1 where L1: "trace (runMetric env k st) = trace st @ L1" "stages L1 = []"
    "\<forall>m' s r. RunHandler m' s r \<in> set L1 \<longrightarrow>
             s = sess st \<and> (\<forall>e. r = Some e \<longrightarrow>
               Errorf (MetricRunError e) \<in> set L1 \<and> code (runMetric env k st) = 1)"
    "code st = 1 \<longrightarrow> code (runMetric env k st) = 1"
    using runMetric_trace [of env k st] by blast
  obtain L2 where L2: "trace (fold (runMetric env) ks (runMetric env k st)) = trace (runMetric env k st) @ L2"
    "stages L2 = []"
    "\<forall>m' s r. RunHandler m' s r \<in> set L2 \<longrightarrow>
             s = sess (runMetric env k st) \<and> (\<forall>e. r = Some e \<longrightarrow>
               Errorf (MetricRunError e) \<in> set L2 \<and> code (fold (runMetric env) ks (runMetric env k st)) = 1)"
    "code (runMetric env k st) = 1 \<longrightarrow> code (fold (runMetric env) ks (runMetric env k st)) = 1"
    using Cons.IH [of "runMetric env k st"] by blast
  have "trace (fold (runMetric env) (k # ks) st) = trace st @ (L1 @ L2)"
    using L1(1) L2(1) by simp
  moreover have "stages (L1 @ L2) = []"
    using L1(2) L2(2) by (simp add: stages_append)
  moreover have "\<forall>m' s r. RunHandler m' s r \<in> set (L1 @ L2) \<longrightarrow>
             s = sess st \<and> (\<forall>e. r = Some e \<longrightarrow>
               Errorf (MetricRunError e) \<in> set (L1 @ L2) \<and> code (fold (runMetric env) (k # ks) st) = 1)"
    using L1(3) L2(3,4) by (auto simp: runMetric_simps)
  moreover have "code st = 1 \<longrightarrow> code (fold (runMetric env) (k # ks) st) = 1"
    using L1(4) L2(4) by simp
  ultimately show ?case by blast
qed

text \<open>
  The two ways through the body of \<open>send\<close>: a fatal exit at one of the three gates, or the
  loop, entered in a state \<open>st7\<close> in which no handler has run yet.
\<close>

lemma sendBody_cases [consumes 2, case_names fatal loop]:
  assumes "trace st0 = []" and "code st0 = 0"
  obtains
    (fatal) "code (sendBody env args st0) = 1"
      and "handlerRuns (trace (sendBody env args st0)) = []"
      and "stages (trace (sendBody env args st0))
             \<in> {take 1 stageOrder, take 3 stageOrder, take 4 stageOrder}"
      and "sess (sendBody env args st0) =
             (if systemID (sendBody env args st0) = [] then sess st0
              else sess (configureSession (viper env) st0))"
  | (loop) st7 where
      "sendBody env args st0 =
         fold (runMetric env)
           (mapRange env (metricsDistinct (requestedMetrics (viper env) args))) st7"
      and "handlerRuns (trace st7) = []" and "stages (trace st7) = stageOrder"
      and "code st7 = 0" and "systemID st7 \<noteq> []"
      and "sess st7 = sess (configureSession (viper env) st0)"
proof -
  let ?st2 = "(emit (At ValidateIdentity) st0)
                \<lparr>systemID := (if systemID st0 = [] then generateID env else systemID st0)\<rparr>"
  let ?st4 = "emit (At ResolveMetrics) (configureSession (viper env)
                (emit (At ConfigureSession) ?st2))"
  let ?st5 = "emit (At ValidateUnits) ?st4"
  let ?st7 = "emit (At ExecuteEach) (emit (At Dedupe) ?st5)"
  let ?req = "requestedMetrics (viper env) args"
  note c = sess_configureSession
  have body: "sendBody env args st0 =
     (if systemID ?st2 = [] then fatal UnableToGenerateSystemID ?st2
      else if ?req = [] then fatal NoMetricsSpecified ?st4
      else if storageUnits (volumeUnit (viper env)) = None
           then fatal (InvalidVolumeUnit (volumeUnit (viper env))) ?st5
      else if storageUnits (memoryUnit (viper env)) = None
           then fatal (InvalidMemoryUnit (memoryUnit (viper env))) ?st5
      else fold (runMetric env) (mapRange env (metricsDistinct ?req)) ?st7)"
    by (simp add: sendBody_def Let_def emit_def)
  have st2: "trace ?st2 = [At ValidateIdentity]" "sess ?st2 = sess st0" "code ?st2 = 0"
    using assms by (simp_all add: emit_def)
  have st4: "stages (trace ?st4) = take 3 stageOrder" "handlerRuns (trace ?st4) = []"
     "sess ?st4 = sess (configureSession (viper env) st0)" "systemID ?st4 = systemID ?st2"
     "code ?st4 = 0"
    using st2 by (simp_all add: emit_simps configureSession_simps stages_append
        handlerRuns_append stageOrder_def c)
  have st5: "stages (trace ?st5) = take 4 stageOrder" "handlerRuns (trace ?st5) = []"
     "sess ?st5 = sess (configureSession (viper env) st0)" "systemID ?st5 = systemID ?st2"
     "code ?st5 = 0"
    using st4 by (simp_all add: emit_simps stages_append handlerRuns_append stageOrder_def)
  have st7: "stages (trace ?st7) = stageOrder" "handlerRuns (trace ?st7) = []"
     "sess ?st7 = sess (configureSession (viper env) st0)" "systemID ?st7 = systemID ?st2"
     "code ?st7 = 0"
    using st5 by (simp_all add: emit_simps stages_append handlerRuns_append stageOrder_def)
  show thesis
  proof (cases "systemID ?st2 = []")
    case True
    show thesis
      by (rule fatal; use True st2 in
          \<open>simp add: body fatal_simps stages_append handlerRuns_append stageOrder_def\<close>)
  next
    case id: False
    show thesis
    proof (cases "?req = []")
      case True
      show thesis
        by (rule fatal; use True id st4 in
            \<open>simp add: body fatal_simps stages_append handlerRuns_append\<close>)
    next
      case req: False
      show thesis
      proof (cases "storageUnits (volumeUnit (viper env)) = None")
        case True
        show thesis
          by (rule fatal; use True id req st5 in
              \<open>simp add: body fatal_simps stages_append handlerRuns_append\<close>)
      next
        case vol: False
        show thesis
        proof (cases "storageUnits (memoryUnit (viper env)) = None")
          case True
          show thesis
            by (rule fatal; use True id req vol st5 in
                \<open>simp add: body fatal_simps stages_append handlerRuns_append\<close>)
        next
          case False
          have "sendBody env args st0 =
                  fold (runMetric env) (mapRange env (metricsDistinct ?req)) ?st7"
            unfolding body using id req vol False by (simp only: if_False)
          moreover have "systemID ?st7 \<noteq> []"
            using id st7(4) by simp
          ultimately show thesis
            using st7(1,2,3,5) by (intro loop [of "?st7"])
        qed
      qed
    qed
  qed
qed

subsection \<open>The whole run\<close>

lemma send_simps:
  "trace (send env args) =
     trace (sendBody env args \<lparr>systemID = idFlag env, sess = sess0 env, code = 0,
                 world = world0 env, trace = []\<rparr>)
     @ [Exit (code (send env args))]"
  "code (send env args) =
     code (sendBody env args \<lparr>systemID = idFlag env, sess = sess0 env, code = 0,
                 world = world0 env, trace = []\<rparr>)"
  "sess (send env args) =
     sess (sendBody env args \<lparr>systemID = idFlag env, sess = sess0 env, code = 0,
                 world = world0 env, trace = []\<rparr>)"
  "systemID (send env args) =
     systemID (sendBody env args \<lparr>systemID = idFlag env, sess = sess0 env, code = 0,
                 world = world0 env, trace = []\<rparr>)"
  by (simp_all add: send_def Let_def emit_simps)

lemma sendBody_cong:
  assumes "set (requestedMetrics (viper env) a) = set (requestedMetrics (viper env) b)"
  shows "sendBody env a st = sendBody env b st"
proof -
  have "metricsDistinct (requestedMetrics (viper env) a)
        = metricsDistinct (requestedMetrics (viper env) b)"
    using assms by (rule metricsDistinct_cong)
  moreover have "(requestedMetrics (viper env) a = []) = (requestedMetrics (viper env) b = [])"
    using assms by (metis set_empty)
  ultimately show ?thesis
    by (simp add: sendBody_def Let_def)
qed

lemma send_cong:
  assumes "set (requestedMetrics (viper env) a) = set (requestedMetrics (viper env) b)"
  shows "send env a = send env b"
  using sendBody_cong [OF assms] by (simp add: send_def)

lemma handlerRuns_send:
  "handlerRuns (trace (send env args)) = []
   \<or> handlerRuns (trace (send env args)) =
       filter (\<lambda>m. metricSpecs m \<noteq> None)
         (mapRange env (metricsDistinct (requestedMetrics (viper env) args)))"
proof -
  let ?st0 = "\<lparr>systemID = idFlag env, sess = sess0 env, code = 0,
               world = world0 env, trace = []\<rparr>"
  have "trace ?st0 = []" "code ?st0 = 0" by simp_all
  then show ?thesis
  proof (cases rule: sendBody_cases [of _ env args])
    case fatal
    then show ?thesis by (simp add: send_simps handlerRuns_append)
  next
    case (loop st7)
    then show ?thesis by (simp add: send_simps handlerRuns_append fold_runMetric_simps)
  qed
qed

lemma split_before_event:
  assumes "xs @ ys = pre @ e # post" and "e \<notin> set xs"
  shows "\<exists>q. pre = xs @ q \<and> ys = q @ e # post"
  using assms by (auto simp: append_eq_append_conv2 append_eq_Cons_conv)

lemma split_before_last:
  assumes "L @ [x] = q @ e # post" and "e \<noteq> x"
  shows "\<exists>post'. L = q @ e # post'"
  using assms by (cases post rule: rev_cases) auto

section \<open>The unit table\<close>

text \<open>
  C2. Looking up each of the tokens b, kb, mb, gb and tb in the unit table succeeds and gives
  the multiplier 1, 1024, 1024 squared, 1024 cubed and 1024 to the fourth; looking up any
  other token finds nothing.
\<close>

theorem storageUnits_lookup:
  "map_option Multiplier (storageUnits ''b'') = Some 1
   \<and> map_option Multiplier (storageUnits ''kb'') = Some 1024
   \<and> map_option Multiplier (storageUnits ''mb'') = Some (1024 ^ 2)
   \<and> map_option Multiplier (storageUnits ''gb'') = Some (1024 ^ 3)
   \<and> map_option Multiplier (storageUnits ''tb'') = Some (1024 ^ 4)
   \<and> (\<forall>t. t \<notin> {''b'', ''kb'', ''mb'', ''gb'', ''tb''} \<longrightarrow> storageUnits t = None)"
  by (simp add: storageUnits_def)

theorem storageUnits_lookup_witness:
  "''xx'' \<notin> {''b'', ''kb'', ''mb'', ''gb'', ''tb''} \<and> storageUnits ''xx'' = None
   \<and> map_option Multiplier (storageUnits ''tb'') = Some 1099511627776"
  using storageUnits_lookup by simp

section \<open>The unit gate\<close>

text \<open>
  C3. When the configured volume unit or the configured memory unit is not a key of the unit
  table, the run exits with code 1 and no metric handler has been called.
\<close>

theorem invalid_unit_aborts:
  assumes "storageUnits (volumeUnit (viper env)) = None
           \<or> storageUnits (memoryUnit (viper env)) = None"
  shows "code (send env args) = 1 \<and> handlerRuns (trace (send env args)) = []"
  using assms by (auto simp: send_unfold)

theorem invalid_unit_aborts_witness:
  "storageUnits ''xx'' = None
   \<and> code (send (testHost (defaults\<lparr>volumeUnit := ''xx''\<rparr>) ''i-1'' [''mem-free''] [])
              [''mem-free'']) = 1
   \<and> handlerRuns (trace (send (testHost (defaults\<lparr>volumeUnit := ''xx''\<rparr>) ''i-1''
                                 [''mem-free''] []) [''mem-free''])) = []"
  using invalid_unit_aborts
    [where env = "testHost (defaults\<lparr>volumeUnit := ''xx''\<rparr>) ''i-1'' [''mem-free''] []"
       and args = "[''mem-free'']"]
  by (simp add: testHost_def defaults_def storageUnits_def)

text \<open>
  C10. The unit gate does not look at the metrics. With an invalid volume or memory unit the
  run exits with code 1 whatever was requested, and any two non-empty requests (one for
  uptime alone, say, and one for a memory size) end in the same state with the same trace.
\<close>

theorem unit_gate_unconditional:
  assumes "storageUnits (volumeUnit (viper env)) = None
           \<or> storageUnits (memoryUnit (viper env)) = None"
  shows "code (send env args) = 1
         \<and> (args \<noteq> [] \<longrightarrow> args' \<noteq> [] \<longrightarrow> send env args' = send env args)"
  using assms
  by (auto simp: send_def sendBody_def Let_def emit_simps fatal_simps
      configureSession_simps requestedMetrics_def)

theorem unit_gate_unconditional_witness:
  "storageUnits ''xx'' = None
   \<and> code (send (testHost (defaults\<lparr>volumeUnit := ''xx''\<rparr>) ''i-1'' [''uptime''] [])
              [''uptime'']) = 1
   \<and> send (testHost (defaults\<lparr>volumeUnit := ''xx''\<rparr>) ''i-1'' [''uptime''] []) [''vol-free'']
       = send (testHost (defaults\<lparr>volumeUnit := ''xx''\<rparr>) ''i-1'' [''uptime''] []) [''uptime'']"
  using unit_gate_unconditional
    [where env = "testHost (defaults\<lparr>volumeUnit := ''xx''\<rparr>) ''i-1'' [''uptime''] []"
       and args = "[''uptime'']" and args' = "[''vol-free'']"]
  by (simp add: testHost_def defaults_def storageUnits_def)

section \<open>The metric list\<close>

text \<open>
  C4. With at least one positional argument the metric list of the run is the list of
  positional arguments, and the configured list has no influence on the run at all; without
  positional arguments the run is the one that the configured list, given as arguments,
  would produce.
\<close>

theorem positional_arguments_replace:
  "(args \<noteq> [] \<longrightarrow> requestedMetrics cfg args = args)
   \<and> (args = [] \<longrightarrow> requestedMetrics cfg args = metrics cfg)
   \<and> (args \<noteq> [] \<longrightarrow>
        send (env\<lparr>viper := (viper env)\<lparr>metrics := ms\<rparr>\<rparr>) args = send env args)
   \<and> send env [] = send env (metrics (viper env))"
  by (simp add: send_def sendBody_def requestedMetrics_def Let_def viper_metrics_irrelevant)

theorem positional_arguments_replace_witness:
  "requestedMetrics (defaults\<lparr>metrics := [''uptime'']\<rparr>) [''mem-used''] = [''mem-used'']
   \<and> requestedMetrics (defaults\<lparr>metrics := [''uptime'']\<rparr>) [] = [''uptime'']
   \<and> send (testHost (defaults\<lparr>metrics := [''uptime'']\<rparr>) ''i-1'' [''mem-used''] [])
        [''mem-used'']
       = send (testHost defaults ''i-1'' [''mem-used''] []) [''mem-used'']"
  using positional_arguments_replace
    [where args = "[''mem-used'']" and cfg = "defaults\<lparr>metrics := [''uptime'']\<rparr>"
       and env = "testHost defaults ''i-1'' [''mem-used''] []" and ms = "[''uptime'']"]
    positional_arguments_replace
    [where args = "[]" and cfg = "defaults\<lparr>metrics := [''uptime'']\<rparr>"
       and env = "testHost defaults ''i-1'' [''mem-used''] []" and ms = "[]"]
  by (simp add: testHost_def defaults_def)

section \<open>The system id\<close>

text \<open>
  C6. The system id of a run is the id given explicitly when there is one; otherwise the
  instance id of the metadata service when that answers; otherwise the host name when that
  is available; otherwise it is empty. A run whose system id is empty exits with code 1
  right after the identity check, before any metric handler is called.
\<close>

theorem system_id_fallback:
  "(idFlag env \<noteq> [] \<longrightarrow> systemID (send env args) = idFlag env)
   \<and> (idFlag env = [] \<longrightarrow> instanceID env = Inr i \<longrightarrow> systemID (send env args) = i)
   \<and> (idFlag env = [] \<longrightarrow> instanceID env = Inl e \<longrightarrow> hostname env = Inr h
        \<longrightarrow> systemID (send env args) = h)
   \<and> (idFlag env = [] \<longrightarrow> instanceID env = Inl e \<longrightarrow> hostname env = Inl e'
        \<longrightarrow> systemID (send env args) = [])
   \<and> (systemID (send env args) = [] \<longrightarrow>
         code (send env args) = 1 \<and> handlerRuns (trace (send env args)) = []
         \<and> trace (send env args) =
             [At ValidateIdentity, Usage, Errorf UnableToGenerateSystemID, Exit 1])"
  by (simp add: send_unfold generateID_def)

theorem system_id_fallback_witness:
  "idFlag ((testHost defaults [] [''uptime''] [])\<lparr>hostname := Inl (Err ''no host name'')\<rparr>) = []
   \<and> systemID (send ((testHost defaults [] [''uptime''] [])
                        \<lparr>hostname := Inl (Err ''no host name'')\<rparr>) [''uptime'']) = []
   \<and> code (send ((testHost defaults [] [''uptime''] [])
                    \<lparr>hostname := Inl (Err ''no host name'')\<rparr>) [''uptime'']) = 1
   \<and> handlerRuns (trace (send ((testHost defaults [] [''uptime''] [])
                                  \<lparr>hostname := Inl (Err ''no host name'')\<rparr>) [''uptime''])) = []
   \<and> systemID (send (testHost defaults [] [''uptime''] []) [''uptime'']) = ''host-1''
   \<and> systemID (send ((testHost defaults [] [''uptime''] [])\<lparr>instanceID := Inr ''i-0abc''\<rparr>)
                  [''uptime'']) = ''i-0abc''
   \<and> systemID (send (testHost defaults ''web-1'' [''uptime''] []) [''uptime'']) = ''web-1''"
  using system_id_fallback
      [where env = "(testHost defaults [] [''uptime''] [])\<lparr>hostname := Inl (Err ''no host name'')\<rparr>"
        and args = "[''uptime'']" and e = "Err ''no metadata service''"
        and e' = "Err ''no host name''" and i = "[]" and h = "[]"]
    system_id_fallback
      [where env = "testHost defaults [] [''uptime''] []"
        and args = "[''uptime'']" and e = "Err ''no metadata service''" and h = "''host-1''"
        and e' = "Err []" and i = "[]"]
    system_id_fallback
      [where env = "(testHost defaults [] [''uptime''] [])\<lparr>instanceID := Inr ''i-0abc''\<rparr>"
        and args = "[''uptime'']" and i = "''i-0abc''" and e = "Err []" and e' = "Err []" and h = "[]"]
    system_id_fallback
      [where env = "testHost defaults ''web-1'' [''uptime''] []"
        and args = "[''uptime'']" and i = "[]" and e = "Err []" and e' = "Err []" and h = "[]"]
  by (simp add: testHost_def defaults_def)

section \<open>The loop over the distinct metrics\<close>

text \<open>
  C5. Whatever legal order the map iteration takes, no handler is run more than once, however
  often its id is repeated in the request, and only requested ids are run. A request and the
  same request without its duplicates give the same run, and so do any two requests with the
  same set of ids: the run depends on the set only.
\<close>

theorem each_metric_once:
  assumes "legalRange env args"
  shows "distinct (handlerRuns (trace (send env args)))
     \<and> set (handlerRuns (trace (send env args))) \<subseteq> set (requestedMetrics (viper env) args)
     \<and> send env (remdups args) = send env args
     \<and> legalRange env (remdups args)
     \<and> (set (requestedMetrics (viper env) args') = set (requestedMetrics (viper env) args)
          \<longrightarrow> send env args' = send env args)"
proof -
  let ?ks = "mapRange env (metricsDistinct (requestedMetrics (viper env) args))"
  have ks: "distinct ?ks" "set ?ks = set (requestedMetrics (viper env) args)"
    using assms by (simp_all add: legalRange_def rangeOrder_def Let_def dom_metricsDistinct)
  have r: "set (requestedMetrics (viper env) (remdups args))
           = set (requestedMetrics (viper env) args)"
    by (simp add: requestedMetrics_def)
  have "distinct (handlerRuns (trace (send env args)))"
    using handlerRuns_send [of env args] ks(1) by auto
  moreover have "set (handlerRuns (trace (send env args)))
                 \<subseteq> set (requestedMetrics (viper env) args)"
  proof -
    have "set (filter (\<lambda>m. metricSpecs m \<noteq> None) ?ks) \<subseteq> set ?ks"
      by (rule filter_is_subset)
    then have "set (filter (\<lambda>m. metricSpecs m \<noteq> None) ?ks)
               \<subseteq> set (requestedMetrics (viper env) args)"
      by (simp only: ks(2))
    then show ?thesis
      using handlerRuns_send [of env args] by (elim disjE) simp_all
  qed
  moreover have "send env (remdups args) = send env args"
    using r by (rule send_cong)
  moreover have "legalRange env (remdups args)"
    using assms unfolding legalRange_def Let_def metricsDistinct_cong [OF r] .
  moreover have "set (requestedMetrics (viper env) args') = set (requestedMetrics (viper env) args)
          \<longrightarrow> send env args' = send env args"
    by (rule impI) (rule send_cong)
  ultimately show ?thesis by (intro conjI)
qed



theorem each_metric_once_witness:
  "legalRange (testHost defaults ''i-1'' [''uptime'', ''mem-free''] [])
     [''mem-free'', ''mem-free'', ''uptime'']
   \<and> distinct (handlerRuns (trace (send (testHost defaults ''i-1'' [''uptime'', ''mem-free''] [])
                                    [''mem-free'', ''mem-free'', ''uptime''])))
   \<and> send (testHost defaults ''i-1'' [''uptime'', ''mem-free''] []) [''uptime'', ''mem-free'']
       = send (testHost defaults ''i-1'' [''uptime'', ''mem-free''] [])
           [''mem-free'', ''mem-free'', ''uptime'']"
proof -
  let ?E = "testHost defaults ''i-1'' [''uptime'', ''mem-free''] []"
  have h: "legalRange ?E [''mem-free'', ''mem-free'', ''uptime'']"
    by (simp add: legalRange_def rangeOrder_def testHost_def defaults_def
        requestedMetrics_def metricsDistinct_def insert_commute)
  have s: "set (requestedMetrics (viper ?E) [''uptime'', ''mem-free''])
           = set (requestedMetrics (viper ?E) [''mem-free'', ''mem-free'', ''uptime''])"
    by (simp add: requestedMetrics_def insert_commute)
  show ?thesis
    using each_metric_once [OF h, where args' = "[''uptime'', ''mem-free'']"] h s
    by (simp only: simp_thms)
qed

text \<open>
  C7. When a handler returns an error, the error is logged and the exit code is 1, and the
  batch goes on: the handler of every valid requested id has been run, each exactly once.
\<close>

theorem handler_failure_not_fatal:
  assumes "legalRange env args"
    and "RunHandler m s (Some e) \<in> set (trace (send env args))"
  shows "code (send env args) = 1
     \<and> Errorf (MetricRunError e) \<in> set (trace (send env args))
     \<and> distinct (handlerRuns (trace (send env args)))
     \<and> set (handlerRuns (trace (send env args))) =
           {k \<in> set (requestedMetrics (viper env) args). metricSpecs k \<noteq> None}"
proof -
  let ?st0 = "\<lparr>systemID = idFlag env, sess = sess0 env, code = 0,
               world = world0 env, trace = []\<rparr>"
  let ?ks = "mapRange env (metricsDistinct (requestedMetrics (viper env) args))"
  have ks: "distinct ?ks" "set ?ks = set (requestedMetrics (viper env) args)"
    using assms(1) by (simp_all add: legalRange_def rangeOrder_def Let_def dom_metricsDistinct)
  have ev: "RunHandler m s (Some e) \<in> set (trace (sendBody env args ?st0))"
    using assms(2) by (simp add: send_simps)
  have "trace ?st0 = []" "code ?st0 = 0" by simp_all
  then show ?thesis
  proof (cases rule: sendBody_cases [of _ env args])
    case fatal
    then show ?thesis using RunHandler_in_handlerRuns [OF ev] by simp
  next
    case (loop st7)
    obtain L where L: "trace (fold (runMetric env) ?ks st7) = trace st7 @ L"
      "\<forall>m' s r. RunHandler m' s r \<in> set L \<longrightarrow>
             s = sess st7 \<and> (\<forall>e. r = Some e \<longrightarrow>
               Errorf (MetricRunError e) \<in> set L \<and> code (fold (runMetric env) ?ks st7) = 1)"
      using fold_runMetric_trace [of env ?ks st7] by blast
    have "RunHandler m s (Some e) \<notin> set (trace st7)"
      using RunHandler_in_handlerRuns [of m s "Some e" "trace st7"] loop(2) by auto
    then have "RunHandler m s (Some e) \<in> set L"
      using ev loop(1) L(1) by simp
    then have "Errorf (MetricRunError e) \<in> set L" "code (fold (runMetric env) ?ks st7) = 1"
      using L(2) by blast+
    then have "code (send env args) = 1" "Errorf (MetricRunError e) \<in> set (trace (send env args))"
      using loop(1) L(1) by (simp_all add: send_simps)
    moreover have hr: "handlerRuns (trace (send env args)) = filter (\<lambda>k. metricSpecs k \<noteq> None) ?ks"
      using loop(1,2) by (simp add: send_simps handlerRuns_append fold_runMetric_simps)
    moreover have "distinct (filter (\<lambda>k. metricSpecs k \<noteq> None) ?ks)"
      using ks(1) by simp
    moreover have "set (filter (\<lambda>k. metricSpecs k \<noteq> None) ?ks) =
           {k \<in> set (requestedMetrics (viper env) args). metricSpecs k \<noteq> None}"
      unfolding set_filter ks(2) ..
    ultimately show ?thesis by (simp only: simp_thms)
  qed
qed



theorem handler_failure_not_fatal_witness:
  "legalRange (testHost defaults ''i-1'' [''mem-free'', ''uptime''] [MemFree])
     [''mem-free'', ''uptime'']
   \<and> RunHandler ''mem-free'' \<lparr>Region = None, Credentials = DefaultCredentials\<rparr>
         (Some (Err ''read failed''))
       \<in> set (trace (send (testHost defaults ''i-1'' [''mem-free'', ''uptime''] [MemFree])
                        [''mem-free'', ''uptime'']))
   \<and> code (send (testHost defaults ''i-1'' [''mem-free'', ''uptime''] [MemFree])
              [''mem-free'', ''uptime'']) = 1
   \<and> handlerRuns (trace (send (testHost defaults ''i-1'' [''mem-free'', ''uptime''] [MemFree])
                            [''mem-free'', ''uptime''])) = [''mem-free'', ''uptime'']"
proof -
  let ?E = "testHost defaults ''i-1'' [''mem-free'', ''uptime''] [MemFree]"
  let ?A = "[''mem-free'', ''uptime'']"
  have h: "legalRange ?E ?A"
    by (simp add: legalRange_def rangeOrder_def testHost_def defaults_def
        requestedMetrics_def metricsDistinct_def insert_commute)
  have t: "trace (send ?E ?A) =
     [At ValidateIdentity, At ConfigureSession, Debugf (ViperRegion []),
      Debugf (AccessKeyFound False), At ResolveMetrics, At ValidateUnits, At Dedupe,
      At ExecuteEach,
      RunHandler ''mem-free'' \<lparr>Region = None, Credentials = DefaultCredentials\<rparr>
        (Some (Err ''read failed'')),
      Errorf (MetricRunError (Err ''read failed'')),
      RunHandler ''uptime'' \<lparr>Region = None, Credentials = DefaultCredentials\<rparr> None,
      Exit 1]"
    by (simp add: run_defs)
  have e: "RunHandler ''mem-free'' \<lparr>Region = None, Credentials = DefaultCredentials\<rparr>
         (Some (Err ''read failed'')) \<in> set (trace (send ?E ?A))"
    by (simp add: t)
  have r: "handlerRuns (trace (send ?E ?A)) = [''mem-free'', ''uptime'']"
    by (simp add: t)
  show ?thesis
    using handler_failure_not_fatal [OF h e] h e r by (simp only: simp_thms)
qed

text \<open>
  C1. The exit code is claimed to be zero only if every requested id was valid and every
  handler succeeded. The loop does not make it so: for an id that is not in the registry it
  prints the error line and continues, leaving \<^verbatim>\<open>code\<close> as it was, whereas the branch for a
  failed handler sets \<^verbatim>\<open>code = 1\<close>. A request for an unknown id and uptime, with a handler
  that succeeds, reports uptime and exits with code 0.
\<close>

theorem invalid_metric_exits_zero:
  "metricSpecs ''bogus'' = None
   \<and> legalRange (testHost defaults ''i-1'' [''bogus'', ''uptime''] []) [''bogus'', ''uptime'']
   \<and> code (send (testHost defaults ''i-1'' [''bogus'', ''uptime''] []) [''bogus'', ''uptime'']) = 0
   \<and> trace (send (testHost defaults ''i-1'' [''bogus'', ''uptime''] []) [''bogus'', ''uptime'']) =
     [At ValidateIdentity, At ConfigureSession, Debugf (ViperRegion []),
      Debugf (AccessKeyFound False), At ResolveMetrics, At ValidateUnits, At Dedupe,
      At ExecuteEach, Printf (InvalidMetric ''bogus''),
      RunHandler ''uptime'' \<lparr>Region = None, Credentials = DefaultCredentials\<rparr> None, Exit 0]"
  by (simp add: run_defs legalRange_def rangeOrder_def insert_commute)

section \<open>The order of the blocks\<close>

text \<open>
  C8. The blocks of a run are entered in the order identity check, session configuration,
  metric list, unit check, copy into the map, loop, and the exit comes last; a run that
  stops early has entered a prefix of them. Every handler call comes after all six blocks
  were entered, and it sees the session that the run ends with. That session is the initial
  one when the system id is empty, and otherwise the initial one with the configured region
  and static credentials applied.
\<close>

theorem stage_order:
  "(\<exists>n. stages (trace (send env args)) = take n stageOrder @ [ComputeExitCode])
   \<and> (\<forall>pre m s r post. trace (send env args) = pre @ RunHandler m s r # post \<longrightarrow>
         stages pre = stageOrder \<and> s = sess (send env args))
   \<and> sess (send env args) =
       (if systemID (send env args) = [] then sess0 env
        else \<lparr>Region = (if region (viper env) \<noteq> [] then Some (region (viper env))
                        else Region (sess0 env)),
              Credentials = (if accessKey (viper env) \<noteq> []
                             then StaticCredentials (accessKey (viper env))
                                    (secretKey (viper env)) []
                             else Credentials (sess0 env))\<rparr>)"
  (is "?order \<and> ?handlers \<and> ?session")
proof -
  let ?st0 = "\<lparr>systemID = idFlag env, sess = sess0 env, code = 0,
               world = world0 env, trace = []\<rparr>"
  let ?ks = "mapRange env (metricsDistinct (requestedMetrics (viper env) args))"
  let ?c = "code (send env args)"
  have tr: "trace (send env args) = trace (sendBody env args ?st0) @ [Exit ?c]"
    by (rule send_simps)
  have "trace ?st0 = []" "code ?st0 = 0" by simp_all
  then show ?thesis
  proof (cases rule: sendBody_cases [of _ env args])
    case fatal
    have "?order"
      using fatal(3) by (auto simp: tr stages_append)
    moreover have "?handlers"
    proof (intro allI impI)
      fix pre m s r post
      assume "trace (send env args) = pre @ RunHandler m s r # post"
      then have "RunHandler m s r \<in> set (trace (send env args))" by simp
      then have "RunHandler m s r \<in> set (trace (sendBody env args ?st0))"
        by (simp add: tr)
      then show "stages pre = stageOrder \<and> s = sess (send env args)"
        using RunHandler_in_handlerRuns fatal(2) by fastforce
    qed
    moreover have "?session"
      using fatal(4) by (simp add: send_simps sess_configureSession)
    ultimately show ?thesis by (intro conjI)
  next
    case (loop st7)
    obtain L where L: "trace (fold (runMetric env) ?ks st7) = trace st7 @ L" "stages L = []"
      "\<forall>m' s r. RunHandler m' s r \<in> set L \<longrightarrow>
             s = sess st7 \<and> (\<forall>e. r = Some e \<longrightarrow>
               Errorf (MetricRunError e) \<in> set L \<and> code (fold (runMetric env) ?ks st7) = 1)"
      using fold_runMetric_trace [of env ?ks st7] by blast
    have ss: "sess (send env args) = sess st7"
      using loop(1) by (simp add: send_simps fold_runMetric_simps)
    have "stages (trace (send env args)) = take 6 stageOrder @ [ComputeExitCode]"
      using loop(1,3) by (simp add: tr stages_append fold_runMetric_simps stageOrder_def)
    then have "?order" ..
    moreover have "?handlers"
    proof (intro allI impI)
      fix pre m s r post
      assume "trace (send env args) = pre @ RunHandler m s r # post"
      then have eq: "trace st7 @ (L @ [Exit ?c]) = pre @ RunHandler m s r # post"
        using loop(1) L(1) by (simp add: tr)
      have "RunHandler m s r \<notin> set (trace st7)"
        using RunHandler_in_handlerRuns [of m s r "trace st7"] loop(2) by auto
      then obtain q where q: "pre = trace st7 @ q" "L @ [Exit ?c] = q @ RunHandler m s r # post"
        using split_before_event [OF eq] by blast
      obtain post' where p: "L = q @ RunHandler m s r # post'"
        using split_before_last [OF q(2)] by blast
      have "stages q = []"
        using L(2) unfolding p by (simp add: stages_append)
      then have "stages pre = stageOrder"
        using q(1) loop(3) by (simp add: stages_append)
      moreover have "s = sess (send env args)"
        using L(3) p ss by simp
      ultimately show "stages pre = stageOrder \<and> s = sess (send env args)" ..
    qed
    moreover have "?session"
      using loop(1,5,6) by (simp add: send_simps fold_runMetric_simps sess_configureSession)
    ultimately show ?thesis by (intro conjI)
  qed
qed

theorem stage_order_witness:
  "trace (send (testHost defaults ''i-1'' [''uptime''] []) [''uptime'']) =
     [At ValidateIdentity, At ConfigureSession, Debugf (ViperRegion []),
      Debugf (AccessKeyFound False), At ResolveMetrics, At ValidateUnits, At Dedupe,
      At ExecuteEach]
     @ RunHandler ''uptime'' \<lparr>Region = None, Credentials = DefaultCredentials\<rparr> None
       # [Exit 0]
   \<and> stages [At ValidateIdentity, At ConfigureSession, Debugf (ViperRegion []),
        Debugf (AccessKeyFound False), At ResolveMetrics, At ValidateUnits, At Dedupe,
        At ExecuteEach] = stageOrder
   \<and> sess (send (testHost defaults ''i-1'' [''uptime''] []) [''uptime''])
       = \<lparr>Region = None, Credentials = DefaultCredentials\<rparr>"
proof -
  let ?E = "testHost defaults ''i-1'' [''uptime''] []"
  let ?pre = "[At ValidateIdentity, At ConfigureSession, Debugf (ViperRegion []),
      Debugf (AccessKeyFound False), At ResolveMetrics, At ValidateUnits, At Dedupe,
      At ExecuteEach]"
  let ?S = "\<lparr>Region = None, Credentials = DefaultCredentials\<rparr>"
  have t: "trace (send ?E [''uptime'']) = ?pre @ RunHandler ''uptime'' ?S None # [Exit 0]"
    by (simp add: run_defs)
  have "\<forall>pre m s r post. trace (send ?E [''uptime'']) = pre @ RunHandler m s r # post \<longrightarrow>
         stages pre = stageOrder \<and> s = sess (send ?E [''uptime''])"
    using stage_order [of ?E "[''uptime'']"] by (elim conjE)
  then have "stages ?pre = stageOrder \<and> ?S = sess (send ?E [''uptime''])"
    using t by blast
  then show ?thesis using t by simp
qed

section \<open>Percentage handlers\<close>

text \<open>
  C9. Each percentage handler (the one of mem-util in particular) returns an error when the
  total is 0, and whenever it returns a value the total was not 0 and the value is the
  quotient times 100: no division by zero is ever carried out.
\<close>

theorem percentage_guard:
  assumes "h \<in> {memUtil, memAvail, volumeUtil, volumeAvailable}"
  shows "(\<exists>e. h part 0 = Inl e)
         \<and> (\<forall>v. h part whole = Inr v \<longrightarrow> whole \<noteq> 0 \<and> v = real part / real whole * 100)"
  using assms
  by (auto simp: memUtil_def memAvail_def volumeUtil_def volumeAvailable_def percentage_def
      split: if_splits)

theorem percentage_guard_witness:
  "memUtil \<in> {memUtil, memAvail, volumeUtil, volumeAvailable}
   \<and> isl (memUtil 512 0)
   \<and> memUtil 512 1024 = Inr 50 \<and> (1024::nat) \<noteq> 0 \<and> (50::real) = real 512 / real 1024 * 100"
proof -
  have m: "memUtil \<in> {memUtil, memAvail, volumeUtil, volumeAvailable}" by simp
  have v: "memUtil 512 1024 = Inr 50"
    by (simp add: memUtil_def percentage_def)
  obtain e where "memUtil 512 0 = Inl e"
    using percentage_guard [OF m, of 512 1024] by blast
  then have "isl (memUtil 512 0)" by simp
  moreover have "(1024::nat) \<noteq> 0 \<and> (50::real) = real 512 / real 1024 * 100"
    using percentage_guard [OF m, of 512 1024] v by blast
  ultimately show ?thesis using m v by (intro conjI) simp_all
qed

end
